theory Spec2Isabelle
  imports Complex_Main
begin

section \<open>Values\<close>

text \<open>
  The program computes on float64 arrays. A finite float is modelled by the real it
  denotes, with exact arithmetic (no rounding, no overflow, no underflow, no signed
  zero); the three special values of IEEE arithmetic are kept, because the code handles
  one of them explicitly (\<^verbatim>\<open>fillna(0.)\<close>) and division produces the others.
\<close>

datatype npfloat = Fin real | PInf | NInf | NaN

text \<open>Exceptions of the Python code, as values.\<close>

datatype error =
    ValueError string
  | AssertionError string
  | AttributeError string
  | TypeError string
  | KeyError string
  | IndexError string

fun fl_add :: "npfloat \<Rightarrow> npfloat \<Rightarrow> npfloat" where
  "fl_add (Fin a) (Fin b) = Fin (a + b)"
| "fl_add NaN _ = NaN"
| "fl_add _ NaN = NaN"
| "fl_add PInf NInf = NaN"
| "fl_add NInf PInf = NaN"
| "fl_add PInf _ = PInf"
| "fl_add _ PInf = PInf"
| "fl_add NInf _ = NInf"
| "fl_add _ NInf = NInf"

fun fl_neg :: "npfloat \<Rightarrow> npfloat" where
  "fl_neg (Fin a) = Fin (- a)"
| "fl_neg PInf = NInf"
| "fl_neg NInf = PInf"
| "fl_neg NaN = NaN"

definition fl_sub :: "npfloat \<Rightarrow> npfloat \<Rightarrow> npfloat" where
  "fl_sub a b = fl_add a (fl_neg b)"

text \<open>The sign of an infinity times a finite factor; zero times infinity is NaN.\<close>

definition inf_times :: "bool \<Rightarrow> real \<Rightarrow> npfloat" where
  "inf_times pos b =
     (if b = 0 then NaN else if (0 < b) = pos then PInf else NInf)"

fun fl_mul :: "npfloat \<Rightarrow> npfloat \<Rightarrow> npfloat" where
  "fl_mul (Fin a) (Fin b) = Fin (a * b)"
| "fl_mul NaN _ = NaN"
| "fl_mul _ NaN = NaN"
| "fl_mul PInf (Fin b) = inf_times True b"
| "fl_mul NInf (Fin b) = inf_times False b"
| "fl_mul (Fin a) PInf = inf_times True a"
| "fl_mul (Fin a) NInf = inf_times False a"
| "fl_mul PInf PInf = PInf"
| "fl_mul NInf NInf = PInf"
| "fl_mul PInf NInf = NInf"
| "fl_mul NInf PInf = NInf"

text \<open>
  Division of a finite numerator (a sum of event indicators) by a float: a nonzero
  numerator over zero is an infinity, zero over zero is NaN.
\<close>

fun np_div :: "real \<Rightarrow> npfloat \<Rightarrow> npfloat" where
  "np_div n (Fin d) =
     (if d \<noteq> 0 then Fin (n / d)
      else if n = 0 then NaN
      else if 0 < n then PInf else NInf)"
| "np_div n PInf = Fin 0"
| "np_div n NInf = Fin 0"
| "np_div n NaN = NaN"

fun np_exp :: "npfloat \<Rightarrow> npfloat" where
  "np_exp (Fin x) = Fin (exp x)"
| "np_exp PInf = PInf"
| "np_exp NInf = Fin 0"
| "np_exp NaN = NaN"

fun np_log :: "npfloat \<Rightarrow> npfloat" where
  "np_log (Fin x) = (if 0 < x then Fin (ln x) else if x = 0 then NInf else NaN)"
| "np_log PInf = PInf"
| "np_log NInf = NaN"
| "np_log NaN = NaN"

text \<open>\<^verbatim>\<open>Series.fillna(0.)\<close>: only NaN is replaced.\<close>

fun fillna0 :: "npfloat \<Rightarrow> npfloat" where
  "fillna0 NaN = Fin 0"
| "fillna0 v = v"

text \<open>
  Sums of pandas skip NaN. A grouped \<^verbatim>\<open>sum\<close> adds the values that are not NaN,
  starting from 0.
\<close>

definition nansum :: "npfloat list \<Rightarrow> npfloat" where
  "nansum xs = foldl fl_add (Fin 0) (filter (\<lambda>x. x \<noteq> NaN) xs)"

text \<open>The running sums of numpy: entry \<open>i\<close> is the sum of entries \<open>0..i\<close>.\<close>

fun np_cumsum_from :: "npfloat \<Rightarrow> npfloat list \<Rightarrow> npfloat list" where
  "np_cumsum_from acc [] = []"
| "np_cumsum_from acc (x # xs) = fl_add acc x # np_cumsum_from (fl_add acc x) xs"

definition np_cumsum :: "npfloat list \<Rightarrow> npfloat list" where
  "np_cumsum xs = (case xs of [] \<Rightarrow> [] | x # ys \<Rightarrow> x # np_cumsum_from x ys)"

text \<open>
  \<^verbatim>\<open>Series.cumsum()\<close>: NaN entries count as 0 in the running sum and are NaN in the
  result.
\<close>

definition cumsum :: "npfloat list \<Rightarrow> npfloat list" where
  "cumsum xs =
     map2 (\<lambda>x c. if x = NaN then NaN else c) xs
       (np_cumsum (map (\<lambda>x. if x = NaN then Fin 0 else x) xs))"

section \<open>Time-index resolution\<close>

text \<open>
  \<^verbatim>\<open>np.searchsorted(array, v)\<close> with the default side: on a sorted array, the number of
  entries strictly below \<open>v\<close>.
\<close>

definition searchsorted :: "real list \<Rightarrow> real \<Rightarrow> int" where
  "searchsorted array v = int (length (takeWhile (\<lambda>a. a < v) array))"

text \<open>
  \<^verbatim>\<open>search_sorted_idx\<close>. The result carries the indices and whether the warning
  \<^verbatim>\<open>'Given value smaller than first value'\<close> was issued. On an empty array every index
  becomes \<open>n - 1 = -1\<close> and \<^verbatim>\<open>array[idx]\<close> raises.
\<close>

definition search_sorted_idx :: "real list \<Rightarrow> real list \<Rightarrow> error + (int list \<times> bool)" where
  "search_sorted_idx array vals =
     (let n = int (length array);
          idx0 = map (searchsorted array) vals;
          idx1 = map (\<lambda>i. if i = n then n - 1 else i) idx0
      in if n = 0 \<and> vals \<noteq> [] then Inl (IndexError ''index -1 is out of bounds'')
         else
           let not_exact = map2 (\<lambda>v i. v \<noteq> array ! nat i) vals idx1;
               idx2 = map2 (\<lambda>i b. i - (if b then 1 else 0)) idx1 not_exact
           in if list_ex (\<lambda>i. i < 0) idx2
              then Inr (map (\<lambda>i. if i < 0 then 0 else i) idx2, True)
              else Inr (idx2, False))"

section \<open>The model object and its collaborators\<close>

text \<open>
  A pandas Series is the list of its (index label, value) entries in positional order.
  The frame built by \<^verbatim>\<open>target_to_df\<close> is the list of its (duration, event) rows; its two
  column names are taken to be different, as the class defaults \<^verbatim>\<open>'duration'\<close> and
  \<^verbatim>\<open>'event'\<close> are.
\<close>

type_synonym series = "(real \<times> npfloat) list"

type_synonym target_frame = "(real \<times> real) list"

type_synonym dataframe = "(string \<times> real list) list"

text \<open>The \<^verbatim>\<open>input\<close> argument: \<^verbatim>\<open>None\<close>, an array of covariate rows, or a DataFrame.\<close>

datatype input = NoInput | Array "real list list" | Frame dataframe

text \<open>
  The \<^verbatim>\<open>target\<close> argument: \<^verbatim>\<open>None\<close>, a pair (durations, events), or the bound method
  \<^verbatim>\<open>self.df_to_target\<close> that three of the \<^verbatim>\<open>_df\<close> wrappers pass on.
\<close>

datatype target = PyNone | Target "real list" "real list" | BoundMethod

text \<open>\<^verbatim>\<open>times\<close>: a number, or an iterable of numbers.\<close>

datatype times = Scalar real | Iterable "real list"

text \<open>What the prediction methods return: a DataFrame with its index, or a bare matrix.\<close>

datatype matrix = DataFrame "(real \<times> npfloat list) list" | NdArray "npfloat list list"

text \<open>
  Code that the class calls and this repository does not contain, as parameters:
  \<^item> \<open>predict\<close>: \<^verbatim>\<open>self.predict(input, batch_size, numpy=True)\<close> of the base class
    \<^verbatim>\<open>pyth.Model\<close>, one score per row;
  \<^item> \<open>tuplefy_to_numpy\<close>: \<^verbatim>\<open>tuplefy(target).to_numpy()\<close>, the sequence that the
    two-name assignment of \<^verbatim>\<open>target_to_df\<close> unpacks;
  \<^item> \<open>take_rows\<close>: \<^verbatim>\<open>tuplefy(input).to_numpy().iloc[positions]\<close>;
  \<^item> \<open>sample_n\<close>, \<open>sample_frac\<close>: the row positions drawn by \<^verbatim>\<open>df.sample(n=sample)\<close>
    and \<^verbatim>\<open>df.sample(frac=sample)\<close> on a frame with the given number of rows;
  \<^item> \<open>lifelines_concordance_index\<close>: \<^verbatim>\<open>lifelines.utils.concordance_index\<close>.
\<close>

record ext =
  predict :: "input \<Rightarrow> nat \<Rightarrow> error + npfloat list"
  tuplefy_to_numpy :: "target \<Rightarrow> error + real list list"
  take_rows :: "input \<Rightarrow> nat list \<Rightarrow> error + input"
  sample_n :: "nat \<Rightarrow> real \<Rightarrow> error + nat list"
  sample_frac :: "nat \<Rightarrow> real \<Rightarrow> error + nat list"
  lifelines_concordance_index :: "real list \<Rightarrow> npfloat list \<Rightarrow> real list \<Rightarrow> error + real"

text \<open>
  The attributes of a model object that the methods read or assign. \<open>None\<close> is an
  attribute that does not exist (\<^verbatim>\<open>hasattr\<close> is false, reading it raises
  \<^verbatim>\<open>AttributeError\<close>). The attributes \<^verbatim>\<open>baseline_hazards_\<close> and
  \<^verbatim>\<open>baseline_cumulative_hazards_\<close> are the fields \<open>self_baseline_hazards\<close> and
  \<open>self_baseline_cumulative_hazards\<close>.
\<close>

record model =
  input_cols :: "string list option"
  training_data :: "(input \<times> target) option"
  self_baseline_hazards :: "series option"
  self_baseline_cumulative_hazards :: "series option"

text \<open>
  \<^verbatim>\<open>target_to_df\<close>: the two-name assignment raises unless the sequence has exactly two
  arrays, and the DataFrame constructor raises on arrays of different lengths.
\<close>

definition target_to_df :: "ext \<Rightarrow> target \<Rightarrow> error + target_frame" where
  "target_to_df x target =
     (case tuplefy_to_numpy x target of
        Inl e \<Rightarrow> Inl e
      | Inr arrs \<Rightarrow>
          (case arrs of
             [durations, events] \<Rightarrow>
               if length durations = length events then Inr (zip durations events)
               else Inl (ValueError ''All arrays must be of the same length'')
           | _ \<Rightarrow> Inl (ValueError ''wrong number of values to unpack (expected 2)'')))"

text \<open>\<^verbatim>\<open>df_to_input\<close>: \<^verbatim>\<open>df[self.input_cols].values\<close>.\<close>

definition df_to_input :: "model \<Rightarrow> dataframe \<Rightarrow> error + input" where
  "df_to_input m df =
     (case input_cols m of
        None \<Rightarrow> Inl (AttributeError ''input_cols'')
      | Some cols \<Rightarrow>
          if list_all (\<lambda>c. map_of df c \<noteq> None) cols
          then Inr (Array (map (\<lambda>i. map (\<lambda>c. the (map_of df c) ! i) cols)
                      [0..<(case df of [] \<Rightarrow> 0 | (c, col) # _ \<Rightarrow> length col)]))
          else Inl (KeyError ''not in index''))"

section \<open>Baseline hazards\<close>

text \<open>
  \<^verbatim>\<open>.groupby(duration_col).agg({'expg': 'sum', event_col: 'sum'})\<close> on rows
  ((duration, event), expg): one row per distinct duration, in ascending order of the
  duration, with the sums of the group.
\<close>

definition groupby_agg_sum :: "((real \<times> real) \<times> npfloat) list \<Rightarrow> (real \<times> npfloat \<times> real) list" where
  "groupby_agg_sum frame =
     map (\<lambda>t. (t,
                nansum (map snd (filter (\<lambda>r. fst (fst r) = t) frame)),
                sum_list (map (\<lambda>r. snd (fst r)) (filter (\<lambda>r. fst (fst r) = t) frame))))
       (sort (remdups (map (\<lambda>r. fst (fst r)) frame)))"

text \<open>\<^verbatim>\<open>.sort_index(ascending=False)\<close>.\<close>

definition sort_index_desc :: "(real \<times> 'a) list \<Rightarrow> (real \<times> 'a) list" where
  "sort_index_desc rows = rev (sort_key fst rows)"

text \<open>
  \<^verbatim>\<open>CoxPHBase._compute_baseline_hazards\<close>. \<^verbatim>\<open>max_duration = None\<close> stands for
  \<^verbatim>\<open>np.inf\<close>, which keeps every duration. Assigning a column of the wrong length
  raises.
\<close>

definition priv_compute_baseline_hazards ::
  "ext \<Rightarrow> input \<Rightarrow> target_frame \<Rightarrow> real option \<Rightarrow> nat \<Rightarrow> error + series" where
  "priv_compute_baseline_hazards x inp df_target max_duration batch_size =
     (case predict x inp batch_size of
        Inl e \<Rightarrow> Inl e
      | Inr g \<Rightarrow>
          let expg = map np_exp g in
          if length expg \<noteq> length df_target
          then Inl (ValueError ''Length of values does not match length of index'')
          else
            let grouped = groupby_agg_sum (zip df_target expg);
                desc = sort_index_desc grouped;
                cum = zip (map fst desc)
                        (zip (cumsum (map (\<lambda>r. fst (snd r)) desc)) (map (\<lambda>r. snd (snd r)) desc));
                haz = map (\<lambda>r. (fst r, np_div (snd (snd r)) (fst (snd r)))) cum;
                filled = map (\<lambda>r. (fst r, fillna0 (snd r))) haz;
                asc = rev filled
            in Inr (filter (\<lambda>r. case max_duration of None \<Rightarrow> True | Some md \<Rightarrow> fst r \<le> md) asc))"

text \<open>
  Lines 92-100 of \<^verbatim>\<open>compute_baseline_cumulative_hazards\<close>: the assertion on the index
  (\<^verbatim>\<open>is_monotonic_increasing\<close> allows equal neighbours), the cumulative sum, and the
  assignment of both series to the object when \<^verbatim>\<open>set_hazards\<close> is true.
\<close>

definition cumulative_tail :: "model \<Rightarrow> bool \<Rightarrow> series \<Rightarrow> (error + series) \<times> model" where
  "cumulative_tail m set_hazards bh =
     (if \<not> sorted (map fst bh)
      then (Inl (AssertionError ''Need index of baseline_hazards_ to be monotonic increasing, as it represents time.''), m)
      else
        let bch = zip (map fst bh) (cumsum (map snd bh))
        in (Inr bch,
            if set_hazards
            then m\<lparr>self_baseline_hazards := Some bh, self_baseline_cumulative_hazards := Some bch\<rparr>
            else m))"

text \<open>
  \<^verbatim>\<open>compute_baseline_hazards\<close>. Its call
  \<^verbatim>\<open>self.compute_baseline_cumulative_hazards(set_hazards=True, baseline_hazards_=base_haz)\<close>
  passes no input and no target, so it runs lines 92-100 only.
\<close>

definition compute_baseline_hazards ::
  "ext \<Rightarrow> model \<Rightarrow> input \<Rightarrow> target \<Rightarrow> real option \<Rightarrow> real option \<Rightarrow> nat \<Rightarrow> bool
     \<Rightarrow> (error + series) \<times> model" where
  "compute_baseline_hazards x m inp target max_duration sample batch_size set_hazards =
     (case (if inp = NoInput \<and> target = PyNone
            then (case training_data m of
                    None \<Rightarrow> Inl (ValueError ''Need to give a input and target to this function.'')
                  | Some td \<Rightarrow> Inr td)
            else Inr (inp, target)) of
        Inl e \<Rightarrow> (Inl e, m)
      | Inr (inp1, target1) \<Rightarrow>
          (case target_to_df x target1 of
             Inl e \<Rightarrow> (Inl e, m)
           | Inr df \<Rightarrow>
               (case (case sample of
                        None \<Rightarrow> Inr [0..<length df]
                      | Some s \<Rightarrow> if 1 \<le> s then sample_n x (length df) s
                                  else sample_frac x (length df) s) of
                  Inl e \<Rightarrow> (Inl e, m)
                | Inr positions \<Rightarrow>
                    (case take_rows x inp1 positions of
                       Inl e \<Rightarrow> (Inl e, m)
                     | Inr inp2 \<Rightarrow>
                         (case priv_compute_baseline_hazards x inp2
                                 (map (\<lambda>i. df ! i) positions) max_duration batch_size of
                            Inl e \<Rightarrow> (Inl e, m)
                          | Inr base_haz \<Rightarrow>
                              if set_hazards
                              then (case cumulative_tail m True base_haz of
                                      (Inl e, m') \<Rightarrow> (Inl e, m')
                                    | (Inr bch, m') \<Rightarrow> (Inr base_haz, m'))
                              else (Inr base_haz, m))))))"

text \<open>\<^verbatim>\<open>compute_baseline_cumulative_hazards\<close>.\<close>

definition compute_baseline_cumulative_hazards ::
  "ext \<Rightarrow> model \<Rightarrow> input \<Rightarrow> target \<Rightarrow> real option \<Rightarrow> real option \<Rightarrow> nat \<Rightarrow> bool
     \<Rightarrow> series option \<Rightarrow> (error + series) \<times> model" where
  "compute_baseline_cumulative_hazards x m inp target max_duration sample batch_size set_hazards
       baseline_hazards_arg =
     (if (inp \<noteq> NoInput \<or> target \<noteq> PyNone) \<and> baseline_hazards_arg \<noteq> None
      then (Inl (ValueError ''input, target and baseline_hazards_ can not both be different from None.''), m)
      else
        (case baseline_hazards_arg of
           Some bh \<Rightarrow> cumulative_tail m set_hazards bh
         | None \<Rightarrow>
             (case compute_baseline_hazards x m inp target max_duration sample batch_size False of
                (Inl e, m') \<Rightarrow> (Inl e, m')
              | (Inr bh, m') \<Rightarrow> cumulative_tail m' set_hazards bh)))"

section \<open>Cumulative hazards and survival\<close>

text \<open>
  The series that reaches \<^verbatim>\<open>_predict_cumulative_hazards\<close> is either the very object
  stored in \<^verbatim>\<open>self.baseline_hazards_\<close> (the caller passed \<^verbatim>\<open>None\<close>, or that object
  itself) or another object; the method tells them apart with \<^verbatim>\<open>is\<close>.
\<close>

datatype hazards_ref = Cached | Other series

text \<open>
  \<^verbatim>\<open>CoxPHBase._predict_cumulative_hazards\<close>. The test
  \<^verbatim>\<open>baseline_hazards_ is self.baseline_hazards_\<close> reads the attribute first, whatever
  series was passed.
\<close>

definition priv_predict_cumulative_hazards ::
  "ext \<Rightarrow> model \<Rightarrow> input \<Rightarrow> real option \<Rightarrow> nat \<Rightarrow> bool \<Rightarrow> hazards_ref
     \<Rightarrow> (error + matrix) \<times> model" where
  "priv_predict_cumulative_hazards x m inp max_duration batch_size verbose baseline_hazards_ref =
     (case self_baseline_hazards m of
        None \<Rightarrow> (Inl (AttributeError ''baseline_hazards_''), m)
      | Some _ \<Rightarrow>
          (case (case baseline_hazards_ref of
                   Cached \<Rightarrow>
                     (case self_baseline_cumulative_hazards m of
                        None \<Rightarrow> (Inl (AttributeError ''baseline_cumulative_hazards_''), m)
                      | Some bch \<Rightarrow> (Inr bch, m))
                 | Other bh \<Rightarrow>
                     compute_baseline_cumulative_hazards x m NoInput PyNone None None 8224 False
                       (Some bh)) of
             (Inl e, m') \<Rightarrow> (Inl e, m')
           | (Inr bch, m') \<Rightarrow>
               let bch1 = filter (\<lambda>r. case max_duration of None \<Rightarrow> True | Some md \<Rightarrow> fst r \<le> md) bch
               in (case predict x inp batch_size of
                     Inl e \<Rightarrow> (Inl e, m')
                   | Inr g \<Rightarrow>
                       (Inr (DataFrame
                               (map (\<lambda>r. (fst r, map (fl_mul (snd r)) (map np_exp g))) bch1)),
                        m'))))"

text \<open>\<^verbatim>\<open>predict_cumulative_hazards\<close>, lines 120-128.\<close>

definition predict_cumulative_hazards ::
  "ext \<Rightarrow> model \<Rightarrow> input \<Rightarrow> real option \<Rightarrow> nat \<Rightarrow> bool \<Rightarrow> series option
     \<Rightarrow> (error + matrix) \<times> model" where
  "predict_cumulative_hazards x m inp max_duration batch_size verbose baseline_hazards_arg =
     (case (case inp of Frame df \<Rightarrow> df_to_input m df | _ \<Rightarrow> Inr inp) of
        Inl e \<Rightarrow> (Inl e, m)
      | Inr inp1 \<Rightarrow>
          (case (case baseline_hazards_arg of
                   None \<Rightarrow>
                     (case self_baseline_hazards m of
                        None \<Rightarrow> Inl (ValueError ''Need to compute baseline_hazards_.'')
                      | Some bh \<Rightarrow> Inr (bh, Cached))
                 | Some bh \<Rightarrow> Inr (bh, Other bh)) of
             Inl e \<Rightarrow> (Inl e, m)
           | Inr (bh, baseline_hazards_ref) \<Rightarrow>
               if \<not> sorted (map fst bh)
               then (Inl (AssertionError ''Need index of baseline_hazards_ to be monotonic increasing, as it represents time.''), m)
               else priv_predict_cumulative_hazards x m inp1 max_duration batch_size verbose
                      baseline_hazards_ref))"





section \<open>Partial log-likelihood and concordance\<close>

text \<open>The larger of two floats, NaN giving way to the other value.\<close>

fun fl_max :: "npfloat \<Rightarrow> npfloat \<Rightarrow> npfloat" where
  "fl_max (Fin a) (Fin b) = Fin (max a b)"
| "fl_max NaN b = b"
| "fl_max a NaN = a"
| "fl_max PInf _ = PInf"
| "fl_max _ PInf = PInf"
| "fl_max NInf b = b"
| "fl_max a NInf = a"

text \<open>A grouped \<^verbatim>\<open>max\<close>: NaN is skipped; a group of NaN only has the maximum NaN.\<close>

definition nanmax :: "npfloat list \<Rightarrow> npfloat" where
  "nanmax xs = (case filter (\<lambda>x. x \<noteq> NaN) xs of [] \<Rightarrow> NaN | y # ys \<Rightarrow> foldl fl_max y ys)"

text \<open>
  \<^verbatim>\<open>CoxPHBase.partial_log_likelihood\<close>. A row is (label, duration, event, g); the result
  lists (label, pll) in the order of the sorted frame. \<^verbatim>\<open>sort_values\<close> is modelled as the
  stable sort; the order it gives to rows of equal duration in pandas is not fixed.
\<close>

definition partial_log_likelihood ::
  "ext \<Rightarrow> input \<Rightarrow> target \<Rightarrow> npfloat list option \<Rightarrow> nat \<Rightarrow> error + (nat \<times> npfloat) list" where
  "partial_log_likelihood x inp target g_preds batch_size =
     (case target_to_df x target of
        Inl e \<Rightarrow> Inl e
      | Inr df \<Rightarrow>
          (case (case g_preds of None \<Rightarrow> predict x inp batch_size | Some g \<Rightarrow> Inr g) of
             Inl e \<Rightarrow> Inl e
           | Inr g \<Rightarrow>
               if length g \<noteq> length df
               then Inl (ValueError ''Length of values does not match length of index'')
               else
                 let rows = zip [0..<length df] (zip (map fst df) (zip (map snd df) g));
                     sorted_rows = sort_key (\<lambda>r. - fst (snd r)) rows;
                     cs = cumsum (map (\<lambda>r. np_exp (snd (snd (snd r)))) sorted_rows);
                     with_cs = zip sorted_rows cs;
                     cum_exp_g =
                       map (\<lambda>r. nanmax (map snd
                                  (filter (\<lambda>q. fst (snd (fst q)) = fst (snd r)) with_cs)))
                         sorted_rows;
                     with_cum = zip sorted_rows cum_exp_g;
                     events_only = filter (\<lambda>q. fst (snd (snd (fst q))) = 1) with_cum
                 in Inr (map (\<lambda>q. (fst (fst q),
                                    fl_sub (snd (snd (snd (fst q)))) (np_log (snd q))))
                           events_only)))"

text \<open>
  \<^verbatim>\<open>CoxPHBase.concordance_index\<close>. \<^verbatim>\<open>durations, events = target\<close> unpacks the argument
  itself: anything but a pair raises.
\<close>

definition concordance_index ::
  "ext \<Rightarrow> input \<Rightarrow> target \<Rightarrow> npfloat list option \<Rightarrow> nat \<Rightarrow> error + real" where
  "concordance_index x inp target g_preds batch_size =
     (case target of
        PyNone \<Rightarrow> Inl (TypeError ''cannot unpack non-iterable NoneType object'')
      | BoundMethod \<Rightarrow> Inl (TypeError ''cannot unpack non-iterable method object'')
      | Target durations events \<Rightarrow>
          (case (case g_preds of None \<Rightarrow> predict x inp batch_size | Some g \<Rightarrow> Inr g) of
             Inl e \<Rightarrow> Inl e
           | Inr g \<Rightarrow>
               (case lifelines_concordance_index x durations g events of
                  Inl e \<Rightarrow> Inl e
                | Inr c \<Rightarrow> Inr (1 - c))))"

section \<open>The DataFrame wrappers\<close>

text \<open>
  \<^verbatim>\<open>compute_baseline_hazards_df\<close>. The body ends in a call of
  \<^verbatim>\<open>self.compute_baseline_hazards_df\<close>, the method itself, with the six positional
  arguments \<^verbatim>\<open>input\<close>, \<^verbatim>\<open>target\<close>, \<^verbatim>\<open>max_duration\<close>, \<^verbatim>\<open>sample\<close>, \<^verbatim>\<open>batch_size\<close>,
  \<^verbatim>\<open>set_hazards\<close>. The method has five parameters besides \<^verbatim>\<open>self\<close>, so Python raises
  \<^verbatim>\<open>TypeError\<close> when it binds the arguments and the body is not entered a second
  time: the model has no recursion.
\<close>

definition compute_baseline_hazards_df ::
  "ext \<Rightarrow> model \<Rightarrow> dataframe option \<Rightarrow> real option \<Rightarrow> real option \<Rightarrow> nat \<Rightarrow> bool
     \<Rightarrow> (error + series) \<times> model" where
  "compute_baseline_hazards_df x m df max_duration sample batch_size set_hazards =
     (case (case df of None \<Rightarrow> Inr (NoInput, PyNone)
            | Some d \<Rightarrow> (case df_to_input m d of Inl e \<Rightarrow> Inl e | Inr inp \<Rightarrow> Inr (inp, BoundMethod))) of
        Inl e \<Rightarrow> (Inl e, m)
      | Inr (inp, target) \<Rightarrow>
          (Inl (TypeError ''compute_baseline_hazards_df() takes from 1 to 6 positional arguments but 7 were given''), m))"

text \<open>\<^verbatim>\<open>compute_baseline_cumulative_hazards_df\<close>.\<close>

definition compute_baseline_cumulative_hazards_df ::
  "ext \<Rightarrow> model \<Rightarrow> dataframe option \<Rightarrow> real option \<Rightarrow> real option \<Rightarrow> nat \<Rightarrow> bool
     \<Rightarrow> series option \<Rightarrow> (error + series) \<times> model" where
  "compute_baseline_cumulative_hazards_df x m df max_duration sample batch_size set_hazards
       baseline_hazards_arg =
     (case (case df of None \<Rightarrow> Inr (NoInput, PyNone)
            | Some d \<Rightarrow> (case df_to_input m d of Inl e \<Rightarrow> Inl e | Inr inp \<Rightarrow> Inr (inp, BoundMethod))) of
        Inl e \<Rightarrow> (Inl e, m)
      | Inr (inp, target) \<Rightarrow>
          compute_baseline_cumulative_hazards x m inp target max_duration sample batch_size
            set_hazards baseline_hazards_arg)"

text \<open>\<^verbatim>\<open>partial_log_likelihood_df\<close>.\<close>

definition partial_log_likelihood_df ::
  "ext \<Rightarrow> model \<Rightarrow> dataframe \<Rightarrow> npfloat list option \<Rightarrow> nat \<Rightarrow> error + (nat \<times> npfloat) list" where
  "partial_log_likelihood_df x m df g_preds batch_size =
     (case df_to_input m df of
        Inl e \<Rightarrow> Inl e
      | Inr inp \<Rightarrow> partial_log_likelihood x inp BoundMethod g_preds batch_size)"

text \<open>\<^verbatim>\<open>concordance_index_df\<close>.\<close>

definition concordance_index_df ::
  "ext \<Rightarrow> model \<Rightarrow> dataframe \<Rightarrow> npfloat list option \<Rightarrow> nat \<Rightarrow> error + real" where
  "concordance_index_df x m df g_preds batch_size =
     (case df_to_input m df of
        Inl e \<Rightarrow> Inl e
      | Inr inp \<Rightarrow> concordance_index x inp BoundMethod g_preds batch_size)"

section \<open>The specification's formulas\<close>

text \<open>
  The formulas that the theorems compare with the code above: prefix sums, differences,
  event counts and risk-set sums as the specification words them, and the values that
  stand at a zero denominator.
\<close>

text \<open>A series of finite values.\<close>

definition fin_series :: "(real \<times> real) list \<Rightarrow> series" where
  "fin_series s = map (\<lambda>r. (fst r, Fin (snd r))) s"

text \<open>The exact prefix sums: entry \<open>i\<close> is the sum of the entries \<open>0..i\<close>.\<close>

definition prefix_sums :: "real list \<Rightarrow> real list" where
  "prefix_sums vs = map (\<lambda>i. sum_list (take (Suc i) vs)) [0..<length vs]"





text \<open>
  \<open>cum_exp_g(t)\<close>: the sum of \<open>exp(g)\<close> over all subjects whose duration is at least \<open>t\<close>;
  \<open>durations\<close> and \<open>g\<close> are aligned by subject.
\<close>

definition cum_exp_g :: "real list \<Rightarrow> real list \<Rightarrow> real \<Rightarrow> real" where
  "cum_exp_g durations g t =
     sum_list (map (\<lambda>j. exp (g ! j)) (filter (\<lambda>j. t \<le> durations ! j) [0..<length durations]))"



section \<open>A concrete model object\<close>

text \<open>
  An instance of the collaborators, to evaluate the methods on concrete inputs:
  \<open>predict\<close> returns the given scores, a target pair is unpacked into its two arrays
  and anything else into a one-element sequence, rows are taken by position, sampling
  draws the first rows, and the concordance of lifelines is the constant 1/2.
\<close>

definition example_ext :: "npfloat list \<Rightarrow> ext" where
  "example_ext g =
     \<lparr>predict = (\<lambda>inp batch_size. Inr g),
      tuplefy_to_numpy =
        (\<lambda>target. case target of Target durations events \<Rightarrow> Inr [durations, events]
                               | _ \<Rightarrow> Inr [[]]),
      take_rows =
        (\<lambda>inp positions. case inp of Array rows \<Rightarrow> Inr (Array (map (\<lambda>i. rows ! i) positions))
                                     | _ \<Rightarrow> Inl (TypeError ''not an array'')),
      sample_n = (\<lambda>n s. Inr [0..<min n (nat \<lfloor>s\<rfloor>)]),
      sample_frac = (\<lambda>n s. Inr [0..<nat \<lfloor>s * real n\<rfloor>]),
      lifelines_concordance_index = (\<lambda>durations g events. Inr (1/2))\<rparr>"

text \<open>A model object on which no hazards were computed or loaded and no data was fitted.\<close>

definition fresh_model :: model where
  "fresh_model =
     \<lparr>input_cols = None, training_data = None,
      self_baseline_hazards = None, self_baseline_cumulative_hazards = None\<rparr>"

section \<open>Theorems\<close>

text \<open>
  C2. On the sorted time axis \<open>[1,3,5]\<close> and the queries \<open>[0,1,2,3,6]\<close> the function
  returns \<open>[0,0,0,1,1]\<close> with the warning: the query \<open>6\<close>, above the largest entry, is
  first clamped to the last index \<open>2\<close> and then, not being an exact hit, decremented to
  \<open>1\<close>. The claim expects \<open>[0,0,0,1,2]\<close>.
\<close>

theorem search_sorted_idx_above_range:
  "search_sorted_idx [1, 3, 5] [0, 1, 2, 3, 6] = Inr ([0, 0, 0, 1, 1], True)"
  by (simp add: search_sorted_idx_def searchsorted_def)

subsection \<open>Cumulative sums of finite values\<close>

lemma prefix_sums_Nil: "prefix_sums [] = []"
  by (simp add: prefix_sums_def)

lemma prefix_sums_snoc: "prefix_sums (vs @ [v]) = prefix_sums vs @ [sum_list vs + v]"
  by (simp add: prefix_sums_def)

lemma np_cumsum_from_append:
  "np_cumsum_from a (xs @ ys) = np_cumsum_from a xs @ np_cumsum_from (foldl fl_add a xs) ys"
  by (induction xs arbitrary: a) simp_all

lemma foldl_fl_add_Fin: "foldl fl_add (Fin a) (map Fin vs) = Fin (a + sum_list vs)"
  by (induction vs arbitrary: a) (simp_all add: add.assoc)

lemma np_cumsum_snoc:
  "np_cumsum (xs @ [x]) = np_cumsum xs @ [case xs of [] \<Rightarrow> x | y # ys \<Rightarrow> fl_add (foldl fl_add y ys) x]"
  by (cases xs) (simp_all add: np_cumsum_def np_cumsum_from_append)

lemma np_cumsum_Fin: "np_cumsum (map Fin vs) = map Fin (prefix_sums vs)"
proof (induction vs rule: rev_induct)
  case Nil
  show ?case by (simp add: np_cumsum_def prefix_sums_Nil)
next
  case (snoc v vs)
  have last: "(case map Fin vs of [] \<Rightarrow> Fin v | y # ys \<Rightarrow> fl_add (foldl fl_add y ys) (Fin v))
      = Fin (sum_list vs + v)"
    by (cases vs) (simp_all add: foldl_fl_add_Fin)
  have "np_cumsum (map Fin vs @ [Fin v]) = map Fin (prefix_sums vs) @ [Fin (sum_list vs + v)]"
    by (simp only: np_cumsum_snoc snoc.IH last)
  then show ?case by (simp add: prefix_sums_snoc)
qed

lemma length_prefix_sums: "length (prefix_sums vs) = length vs"
  by (simp add: prefix_sums_def)

lemma length_np_cumsum_from: "length (np_cumsum_from a xs) = length xs"
  by (induction xs arbitrary: a) simp_all

lemma length_np_cumsum: "length (np_cumsum xs) = length xs"
  by (cases xs) (simp_all add: np_cumsum_def length_np_cumsum_from)

lemma cumsum_Fin: "cumsum (map Fin vs) = map Fin (prefix_sums vs)"
proof -
  have "map (\<lambda>x. if x = NaN then Fin 0 else x) (map Fin vs) = map Fin vs"
    by simp
  then have "cumsum (map Fin vs) =
      map2 (\<lambda>x c. if x = NaN then NaN else c) (map Fin vs) (map Fin (prefix_sums vs))"
    by (simp only: cumsum_def np_cumsum_Fin)
  also have "\<dots> = map Fin (prefix_sums vs)"
    by (rule nth_equalityI) (simp_all add: length_prefix_sums)
  finally show ?thesis .
qed


lemma fin_series_fst: "map fst (fin_series s) = map fst s"
  by (simp add: fin_series_def comp_def)

lemma fin_series_snd: "map snd (fin_series s) = map Fin (map snd s)"
  by (simp add: fin_series_def comp_def)

lemma fin_series_zip: "zip ts (map Fin vs) = fin_series (zip ts vs)"
  by (simp add: fin_series_def zip_map2 case_prod_beta)

lemma cumulative_tail_fin:
  "sorted (map fst bh) \<Longrightarrow>
   cumulative_tail m sh (fin_series bh) =
     (Inr (fin_series (zip (map fst bh) (prefix_sums (map snd bh)))),
      if sh then m\<lparr>self_baseline_hazards := Some (fin_series bh),
                   self_baseline_cumulative_hazards :=
                     Some (fin_series (zip (map fst bh) (prefix_sums (map snd bh))))\<rparr>
      else m)"
  by (simp add: cumulative_tail_def fin_series_fst fin_series_snd cumsum_Fin fin_series_zip
        Let_def del: map_map)

lemma cumulative_tail_unsorted:
  "\<not> sorted (map fst bh) \<Longrightarrow> \<exists>msg. cumulative_tail m sh bh = (Inl (AssertionError msg), m)"
  by (simp add: cumulative_tail_def)

lemma compute_bch_given:
  "compute_baseline_cumulative_hazards x m NoInput PyNone md sample bs sh (Some bh) =
     cumulative_tail m sh bh"
  by (simp add: compute_baseline_cumulative_hazards_def)

lemma prefix_sums_nth:
  "i < length vs \<Longrightarrow> prefix_sums vs ! i = sum_list (take (Suc i) vs)"
  by (simp add: prefix_sums_def)

lemma sum_list_take_mono:
  fixes vs :: "real list"
  assumes "\<forall>v\<in>set vs. 0 \<le> v" and "i \<le> j"
  shows "sum_list (take i vs) \<le> sum_list (take j vs)"
proof -
  have "take j vs = take i vs @ take (j - i) (drop i vs)"
    using assms(2) by (metis le_add_diff_inverse take_add)
  moreover have "0 \<le> sum_list (take (j - i) (drop i vs))"
    using assms(1) by (intro sum_list_nonneg) (auto dest: in_set_takeD in_set_dropD)
  ultimately show ?thesis by simp
qed

lemma prefix_sums_monotone:
  fixes ts vs :: "real list"
  assumes srt: "sorted ts" and len: "length ts = length vs" and nn: "\<forall>v\<in>set vs. 0 \<le> v"
    and r1: "r1 \<in> set (zip ts (prefix_sums vs))" and r2: "r2 \<in> set (zip ts (prefix_sums vs))"
    and lt: "fst r1 < fst r2"
  shows "snd r1 \<le> snd r2"
proof -
  from r1 obtain i where i: "i < length vs" "r1 = (ts ! i, prefix_sums vs ! i)"
    by (auto simp: in_set_zip length_prefix_sums len)
  from r2 obtain j where j: "j < length vs" "r2 = (ts ! j, prefix_sums vs ! j)"
    by (auto simp: in_set_zip length_prefix_sums len)
  have "i \<le> j"
  proof (rule ccontr)
    assume "\<not> i \<le> j"
    then have "ts ! j \<le> ts ! i"
      using srt i(1) len by (simp add: sorted_nth_mono)
    with lt i(2) j(2) show False by simp
  qed
  then have "sum_list (take (Suc i) vs) \<le> sum_list (take (Suc j) vs)"
    using nn by (intro sum_list_take_mono) simp_all
  with i j show ?thesis by (simp add: prefix_sums_nth)
qed

text \<open>
  C3. Given a baseline hazard series (and no input or target),
  \<^verbatim>\<open>compute_baseline_cumulative_hazards\<close> raises the assertion error, leaving the model
  as it was, when the index of the series is not monotonic increasing; otherwise it
  returns the series of the exact prefix sums of the values, on the same index. When
  moreover the values are non-negative, the value returned for an index \<open>t1\<close> is at most
  the value returned for any larger index \<open>t2\<close>.
\<close>

theorem cumulative_hazards_prefix_sum_monotone:
  fixes bh :: "(real \<times> real) list"
  shows "(\<not> sorted (map fst bh) \<longrightarrow>
            (\<exists>msg. compute_baseline_cumulative_hazards x m NoInput PyNone md sample bs sh
                      (Some (fin_series bh)) = (Inl (AssertionError msg), m)))
       \<and> (sorted (map fst bh) \<longrightarrow>
            fst (compute_baseline_cumulative_hazards x m NoInput PyNone md sample bs sh
                   (Some (fin_series bh)))
              = Inr (fin_series (zip (map fst bh) (prefix_sums (map snd bh)))))
       \<and> (sorted (map fst bh) \<and> (\<forall>v\<in>set (map snd bh). 0 \<le> v) \<longrightarrow>
            (\<forall>r1\<in>set (zip (map fst bh) (prefix_sums (map snd bh))).
             \<forall>r2\<in>set (zip (map fst bh) (prefix_sums (map snd bh))).
               fst r1 < fst r2 \<longrightarrow> snd r1 \<le> snd r2))"
proof (intro conjI impI ballI)
  assume "\<not> sorted (map fst bh)"
  then have "\<not> sorted (map fst (fin_series bh))" by (simp add: fin_series_fst)
  then show "\<exists>msg. compute_baseline_cumulative_hazards x m NoInput PyNone md sample bs sh
                      (Some (fin_series bh)) = (Inl (AssertionError msg), m)"
    unfolding compute_bch_given by (rule cumulative_tail_unsorted)
next
  assume "sorted (map fst bh)"
  then show "fst (compute_baseline_cumulative_hazards x m NoInput PyNone md sample bs sh
                   (Some (fin_series bh)))
              = Inr (fin_series (zip (map fst bh) (prefix_sums (map snd bh))))"
    by (simp add: compute_bch_given cumulative_tail_fin)
next
  fix r1 r2
  assume h: "sorted (map fst bh) \<and> (\<forall>v\<in>set (map snd bh). 0 \<le> v)"
    and "r1 \<in> set (zip (map fst bh) (prefix_sums (map snd bh)))"
    and "r2 \<in> set (zip (map fst bh) (prefix_sums (map snd bh)))"
    and "fst r1 < fst r2"
  then show "snd r1 \<le> snd r2"
    using prefix_sums_monotone [of "map fst bh" "map snd bh" r1 r2] by simp
qed

theorem cumulative_hazards_prefix_sum_monotone_witness:
  "fst (compute_baseline_cumulative_hazards (example_ext []) fresh_model NoInput PyNone None None
          8224 True (Some (fin_series [(2, 1/4), (3, 1/2)])))
     = Inr (fin_series [(2, 1/4), (3, 3/4)])
   \<and> (\<exists>msg. compute_baseline_cumulative_hazards (example_ext []) fresh_model NoInput PyNone None
          None 8224 True (Some (fin_series [(3, 1/2), (2, 1/4)]))
        = (Inl (AssertionError msg), fresh_model))
   \<and> (1/4 :: real) \<le> 3/4"
proof -
  have s: "sorted (map fst [(2::real, 1/4::real), (3, 1/2)])" by simp
  have u: "\<not> sorted (map fst [(3::real, 1/2::real), (2, 1/4)])" by simp
  have p: "prefix_sums [1/4, 1/2] = [1/4, 3/4]"
    by (simp add: prefix_sums_def upt_rec)
  note t = cumulative_hazards_prefix_sum_monotone
    [of "[(2, 1/4), (3, 1/2)]" "example_ext []" fresh_model None None 8224 True]
  note t' = cumulative_hazards_prefix_sum_monotone
    [of "[(3, 1/2), (2, 1/4)]" "example_ext []" fresh_model None None 8224 True]
  from t s p have a: "fst (compute_baseline_cumulative_hazards (example_ext []) fresh_model
          NoInput PyNone None None 8224 True (Some (fin_series [(2, 1/4), (3, 1/2)])))
     = Inr (fin_series [(2, 1/4), (3, 3/4)])" by simp
  from t' u have b: "\<exists>msg. compute_baseline_cumulative_hazards (example_ext []) fresh_model
          NoInput PyNone None None 8224 True (Some (fin_series [(3, 1/2), (2, 1/4)]))
        = (Inl (AssertionError msg), fresh_model)" by blast
  show ?thesis using a b by simp
qed

subsection \<open>Round trip and the worked cohort\<close>






text \<open>
  C5. For the cohort with durations \<open>[2,2,3]\<close>, events \<open>[1,0,1]\<close> and exponentiated scores
  \<open>[1,1,2]\<close>, \<^verbatim>\<open>_compute_baseline_hazards\<close> returns the hazards \<open>1/4\<close> at \<open>2\<close> and \<open>1/2\<close> at
  \<open>3\<close>, and the cumulative hazard series computed from that series is \<open>1/4\<close> at \<open>2\<close> and
  \<open>3/4\<close> at \<open>3\<close>.
\<close>

theorem breslow_scenario:
  assumes "predict x inp bs = Inr g" and "map np_exp g = [Fin 1, Fin 1, Fin 2]"
  shows "priv_compute_baseline_hazards x inp [(2, 1), (2, 0), (3, 1)] None bs
           = Inr [(2, Fin (1/4)), (3, Fin (1/2))]
       \<and> fst (compute_baseline_cumulative_hazards x m NoInput PyNone None None bs sh
                (Some [(2, Fin (1/4)), (3, Fin (1/2))]))
           = Inr [(2, Fin (1/4)), (3, Fin (3/4))]"
proof -
  have len: "length g = 3"
    using assms(2) by (metis length_map length_Cons list.size(3) numeral_3_eq_3)
  have c: "cumsum [Fin 2, Fin 2] = [Fin 2, Fin 4]"
    by (simp add: cumsum_def np_cumsum_def)
  have a: "priv_compute_baseline_hazards x inp [(2, 1), (2, 0), (3, 1)] None bs
           = Inr [(2, Fin (1/4)), (3, Fin (1/2))]"
    using assms len
    by (simp add: priv_compute_baseline_hazards_def groupby_agg_sum_def sort_index_desc_def
        nansum_def c)
  have c2: "cumsum [Fin (1/4), Fin (1/2)] = [Fin (1/4), Fin (3/4)]"
    by (simp add: cumsum_def np_cumsum_def)
  have b: "fst (compute_baseline_cumulative_hazards x m NoInput PyNone None None bs sh
                (Some [(2, Fin (1/4)), (3, Fin (1/2))]))
           = Inr [(2, Fin (1/4)), (3, Fin (3/4))]"
    by (simp add: compute_bch_given cumulative_tail_def c2 Let_def)
  from a b show ?thesis by simp
qed


theorem breslow_scenario_witness:
  "predict (example_ext [Fin 0, Fin 0, Fin (ln 2)]) (Array [[0], [0], [0]]) 8224
     = Inr [Fin 0, Fin 0, Fin (ln 2)]
   \<and> map np_exp [Fin 0, Fin 0, Fin (ln 2)] = [Fin 1, Fin 1, Fin 2]
   \<and> priv_compute_baseline_hazards (example_ext [Fin 0, Fin 0, Fin (ln 2)])
        (Array [[0], [0], [0]]) [(2, 1), (2, 0), (3, 1)] None 8224
       = Inr [(2, Fin (1/4)), (3, Fin (1/2))]
   \<and> fst (compute_baseline_cumulative_hazards (example_ext [Fin 0, Fin 0, Fin (ln 2)])
            fresh_model NoInput PyNone None None 8224 True
            (Some [(2, Fin (1/4)), (3, Fin (1/2))]))
       = Inr [(2, Fin (1/4)), (3, Fin (3/4))]"
proof -
  have p: "predict (example_ext [Fin 0, Fin 0, Fin (ln 2)]) (Array [[0], [0], [0]]) 8224
     = Inr [Fin 0, Fin 0, Fin (ln 2)]"
    by (simp add: example_ext_def)
  have e: "map np_exp [Fin 0, Fin 0, Fin (ln 2)] = [Fin 1, Fin 1, Fin 2]"
    by simp
  show ?thesis
    using p e breslow_scenario [OF p e, of fresh_model True] by simp
qed

subsection \<open>Survival, errors and the DataFrame wrappers\<close>


text \<open>
  C9. Whatever the arguments, \<^verbatim>\<open>compute_baseline_hazards_df\<close> raises and leaves the model
  as it was: it returns no series.
\<close>

theorem compute_baseline_hazards_df_always_raises:
  "\<exists>e. compute_baseline_hazards_df x m df md sample bs sh = (Inl e, m)"
  by (simp add: compute_baseline_hazards_df_def split: option.splits sum.splits prod.splits)

lemma target_to_df_not_pair:
  assumes "\<And>arrs. tuplefy_to_numpy x t = Inr arrs \<Longrightarrow> length arrs \<noteq> 2"
  shows "\<exists>e. target_to_df x t = Inl e"
proof (cases "tuplefy_to_numpy x t")
  case (Inl e)
  then show ?thesis by (simp add: target_to_df_def)
next
  case (Inr arrs)
  with assms have "length arrs \<noteq> 2" by simp
  then have "(case arrs of [durations, events] \<Rightarrow>
               if length durations = length events then Inr (zip durations events)
               else Inl (ValueError ''All arrays must be of the same length'')
           | _ \<Rightarrow> Inl (ValueError ''wrong number of values to unpack (expected 2)''))
         = Inl (ValueError ''wrong number of values to unpack (expected 2)'')"
    by (auto split: list.splits)
  with Inr show ?thesis by (simp add: target_to_df_def)
qed

text \<open>
  C10. The wrappers \<^verbatim>\<open>partial_log_likelihood_df\<close>, \<^verbatim>\<open>concordance_index_df\<close> and
  \<^verbatim>\<open>compute_baseline_cumulative_hazards_df\<close> (called with a dataframe) pass the method
  object on as the target, and each call raises. For the first and the last the
  exception comes from the two-name assignment in \<^verbatim>\<open>target_to_df\<close>; the hypothesis says
  that \<^verbatim>\<open>tuplefy(method).to_numpy()\<close>, when it returns at all, is not a sequence of exactly
  two arrays.
\<close>

theorem df_wrappers_pass_method_and_raise:
  assumes "\<And>arrs. tuplefy_to_numpy x BoundMethod = Inr arrs \<Longrightarrow> length arrs \<noteq> 2"
  shows "(\<exists>e. partial_log_likelihood_df x m df g_preds bs = Inl e)
       \<and> (\<exists>e. concordance_index_df x m df g_preds bs = Inl e)
       \<and> (\<exists>e. compute_baseline_cumulative_hazards_df x m (Some df) md sample bs sh bha
                = (Inl e, m))"
proof -
  from target_to_df_not_pair [OF assms] obtain e0 where e0: "target_to_df x BoundMethod = Inl e0"
    by blast
  have a: "\<exists>e. partial_log_likelihood_df x m df g_preds bs = Inl e"
    by (cases "df_to_input m df")
       (simp_all add: partial_log_likelihood_df_def partial_log_likelihood_def e0)
  have b: "\<exists>e. concordance_index_df x m df g_preds bs = Inl e"
    by (cases "df_to_input m df")
       (simp_all add: concordance_index_df_def concordance_index_def)
  have c: "\<exists>e. compute_baseline_cumulative_hazards_df x m (Some df) md sample bs sh bha
                = (Inl e, m)"
  proof (cases "df_to_input m df")
    case (Inl e)
    then show ?thesis by (simp add: compute_baseline_cumulative_hazards_df_def)
  next
    case (Inr inp)
    have "\<exists>e. compute_baseline_hazards x m inp BoundMethod md sample bs False = (Inl e, m)"
      by (simp add: compute_baseline_hazards_def e0)
    then show ?thesis
      using Inr
      by (cases bha)
         (auto simp: compute_baseline_cumulative_hazards_df_def
            compute_baseline_cumulative_hazards_def)
  qed
  from a b c show ?thesis by simp
qed

text \<open>
  C8. On a model without the attribute \<^verbatim>\<open>baseline_hazards_\<close>,
  \<^verbatim>\<open>predict_cumulative_hazards\<close> with \<^verbatim>\<open>baseline_hazards_ = None\<close> raises and leaves the
  model unchanged; for an array input the exception is the
  \<^verbatim>\<open>ValueError('Need to compute baseline_hazards_.')\<close>. With an explicit series the call
  raises as well: a series with a sorted index passes lines 120-127 and then
  \<^verbatim>\<open>_predict_cumulative_hazards\<close> reads \<^verbatim>\<open>self.baseline_hazards_\<close>, which raises
  \<^verbatim>\<open>AttributeError\<close>.
\<close>

theorem predict_without_baseline_hazards:
  assumes "self_baseline_hazards m = None"
  shows "(\<exists>e. predict_cumulative_hazards x m inp md bs vb None = (Inl e, m))
       \<and> (\<exists>e. predict_cumulative_hazards x m inp md bs vb (Some bh) = (Inl e, m))
       \<and> predict_cumulative_hazards x m (Array rows) md bs vb None
           = (Inl (ValueError ''Need to compute baseline_hazards_.''), m)
       \<and> (sorted (map fst bh) \<longrightarrow>
            predict_cumulative_hazards x m (Array rows) md bs vb (Some bh)
              = (Inl (AttributeError ''baseline_hazards_''), m))"
proof -
  have a: "\<exists>e. predict_cumulative_hazards x m inp md bs vb None = (Inl e, m)"
    using assms
    by (cases inp; cases "df_to_input m (case inp of Frame df \<Rightarrow> df)")
       (simp_all add: predict_cumulative_hazards_def)
  have b: "\<exists>e. predict_cumulative_hazards x m inp md bs vb (Some bh) = (Inl e, m)"
    using assms
    by (cases inp; cases "df_to_input m (case inp of Frame df \<Rightarrow> df)")
       (simp_all add: predict_cumulative_hazards_def priv_predict_cumulative_hazards_def)
  have c: "predict_cumulative_hazards x m (Array rows) md bs vb None
           = (Inl (ValueError ''Need to compute baseline_hazards_.''), m)"
    using assms by (simp add: predict_cumulative_hazards_def)
  have d: "predict_cumulative_hazards x m (Array rows) md bs vb (Some bh)
              = (Inl (AttributeError ''baseline_hazards_''), m)" if "sorted (map fst bh)"
    using assms that
    by (simp add: predict_cumulative_hazards_def priv_predict_cumulative_hazards_def)
  from a b c d show ?thesis by simp
qed



theorem df_wrappers_pass_method_and_raise_witness:
  "tuplefy_to_numpy (example_ext []) BoundMethod = Inr [[]]
   \<and> (\<exists>e. partial_log_likelihood_df (example_ext []) (fresh_model\<lparr>input_cols := Some [''x1'']\<rparr>)
             [(''x1'', [0]), (''duration'', [2]), (''event'', [1])] None 8224 = Inl e)
   \<and> (\<exists>e. concordance_index_df (example_ext []) (fresh_model\<lparr>input_cols := Some [''x1'']\<rparr>)
             [(''x1'', [0]), (''duration'', [2]), (''event'', [1])] None 256 = Inl e)
   \<and> (\<exists>e. compute_baseline_cumulative_hazards_df (example_ext [])
             (fresh_model\<lparr>input_cols := Some [''x1'']\<rparr>)
             (Some [(''x1'', [0]), (''duration'', [2]), (''event'', [1])]) None None 8224 True None
           = (Inl e, fresh_model\<lparr>input_cols := Some [''x1'']\<rparr>))"
proof -
  have t: "tuplefy_to_numpy (example_ext []) BoundMethod = Inr [[]]"
    by (simp add: example_ext_def)
  have h: "\<And>arrs. tuplefy_to_numpy (example_ext []) BoundMethod = Inr arrs \<Longrightarrow> length arrs \<noteq> 2"
    by (simp add: example_ext_def)
  show ?thesis
    using t df_wrappers_pass_method_and_raise [OF h] by blast
qed

theorem predict_without_baseline_hazards_witness:
  "self_baseline_hazards fresh_model = None
   \<and> predict_cumulative_hazards (example_ext [Fin 0]) fresh_model (Array [[0]]) None 8224 False None
       = (Inl (ValueError ''Need to compute baseline_hazards_.''), fresh_model)
   \<and> predict_cumulative_hazards (example_ext [Fin 0]) fresh_model (Array [[0]]) None 8224 False
         (Some [(1, Fin (1/2))])
       = (Inl (AttributeError ''baseline_hazards_''), fresh_model)"
proof -
  have n: "self_baseline_hazards fresh_model = None"
    by (simp add: fresh_model_def)
  have s: "sorted (map fst [(1::real, Fin (1/2))])" by simp
  show ?thesis
    using n s predict_without_baseline_hazards
      [OF n, of "example_ext [Fin 0]" "Array [[0]]" None 8224 False "[(1, Fin (1/2))]" "[[0]]"]
    by simp
qed

subsection \<open>The Breslow estimator\<close>













lemma fillna0_np_div:
  "fillna0 (np_div n (Fin r)) =
     (if r \<noteq> 0 then Fin (n / r) else if n = 0 then Fin 0 else if 0 < n then PInf else NInf)"
  by simp









subsection \<open>The partial log-likelihood\<close>

















end
